theory Spec2Isabelle
  imports Main "HOL-Library.AList" "HOL-Library.List_Lexorder" "HOL-Library.Char_ord"
    "HOL-Library.Log_Nat"
begin

section \<open>The entries table\<close>

text \<open>
  The application keeps one table, \<^verbatim>\<open>entries\<close>, in a hosted database and reads and
  writes it through filtered select, insert and update requests. A row is the TypeScript
  interface \<^verbatim>\<open>Entry\<close> of TakenEntries (the widest of the three declarations of the
  same table): a nullable column is an \<open>option\<close>, \<open>None\<close> being SQL \<^verbatim>\<open>NULL\<close>
  (which the client reads as \<^verbatim>\<open>null\<close>). The column \<^verbatim>\<open>created_at\<close>, which no
  component reads or writes, is left out.

  The column \<^verbatim>\<open>id\<close> is \<open>entry_id\<close> here (\<open>id\<close> is HOL's identity function), and the
  fields of the forms, of a history element and of the other row shapes carry a prefix
  where the source uses a column's name again.

  Amounts are JavaScript numbers. In a row they are modelled as mathematical integers:
  whole currency amounts, on which JavaScript's addition and subtraction are exact below
  \<open>2^53\<close>. Where the rounding of fractional amounts decides a property, in the sums of the
  report, the amounts are doubles (see the section on JavaScript numbers). Dates are the
  \<^verbatim>\<open>yyyy-MM-dd\<close> strings the client exchanges with the table; whether the database can
  parse such a string as a date is not modelled.
\<close>

record renewal_item =
  h_date :: string
  h_amount :: int
  h_settled_amount :: int
  h_renewal_date :: string
  h_new_amount :: int

record entry =
  entry_id :: int
  type :: string
  date :: string
  customer_name :: string
  customer_address :: string
  customer_mobile :: "string option"
  items :: string
  given_amount :: int
  status :: string
  settled_amount :: "int option"
  settled_date :: "string option"
  settlement_notes :: "string option"
  renewal_history :: "renewal_item list option"
  renewal_date :: "string option"
  renewal_amount :: "int option"

subsection \<open>The CHECK constraints of the migrations\<close>

text \<open>
  \<^verbatim>\<open>type text NOT NULL CHECK (type IN ('NR', 'R', 'Vyapari'))\<close>,
  \<^verbatim>\<open>given_amount numeric NOT NULL CHECK (given_amount >= 0)\<close>,
  \<^verbatim>\<open>status text NOT NULL DEFAULT 'active' CHECK (status IN ('active', 'settled'))\<close>,
  and the two named constraints \<^verbatim>\<open>settlement_details_required\<close> and
  \<^verbatim>\<open>renewal_details_check\<close>.
\<close>

definition type_check :: "entry \<Rightarrow> bool" where
  "type_check r = (type r = ''NR'' \<or> type r = ''R'' \<or> type r = ''Vyapari'')"

definition given_amount_check :: "entry \<Rightarrow> bool" where
  "given_amount_check r = (given_amount r \<ge> 0)"

definition status_check :: "entry \<Rightarrow> bool" where
  "status_check r = (status r = ''active'' \<or> status r = ''settled'')"

definition settlement_details_required :: "entry \<Rightarrow> bool" where
  "settlement_details_required r =
     ((status r = ''settled'' \<and> settled_amount r \<noteq> None \<and> settled_date r \<noteq> None) \<or>
      (status r = ''active'' \<and> settled_amount r = None \<and> settled_date r = None))"

definition renewal_details_check :: "entry \<Rightarrow> bool" where
  "renewal_details_check r =
     ((renewal_date r \<noteq> None \<and> renewal_amount r \<noteq> None) \<or>
      (renewal_date r = None \<and> renewal_amount r = None))"

definition row_ok :: "entry \<Rightarrow> bool" where
  "row_ok r = (type_check r \<and> given_amount_check r \<and> status_check r \<and>
               settlement_details_required r \<and> renewal_details_check r)"

subsection \<open>The store and its requests\<close>

text \<open>
  The store is the table, the identity sequence of its \<^verbatim>\<open>id\<close> column and whether
  requests reach the database at all. A request that does not reach it, or whose
  statement violates a CHECK constraint, is answered with an error and writes nothing;
  the statement is atomic.
\<close>

record store =
  rows :: "entry list"
  next_id :: int
  reachable :: bool

datatype store_error = Unreachable | InvalidDate | CheckViolation

text \<open>
  \<^verbatim>\<open>.update(fields).eq(...).eq(...)\<close>: every row that satisfies the filters is
  rewritten, the new version of each rewritten row is checked, the other rows stay. A
  statement that matches no row succeeds and changes nothing. The dates that the settle
  and renewal requests write come from date inputs marked \<^verbatim>\<open>required\<close>, whose value is
  always a date in the ISO spelling; the model does not read them again.
\<close>

definition update_where ::
    "(entry \<Rightarrow> bool) \<Rightarrow> (entry \<Rightarrow> entry) \<Rightarrow> store \<Rightarrow> store_error + store" where
  "update_where p f db =
     (if \<not> reachable db then Inl Unreachable
      else if \<not> list_all row_ok (map f (filter p (rows db))) then Inl CheckViolation
      else Inr (db\<lparr>rows := map (\<lambda>r. if p r then f r else r) (rows db)\<rparr>))"

text \<open>
  \<^verbatim>\<open>.select('*').eq('status', 'active').order('date', { ascending: false })\<close>, with
  \<^verbatim>\<open>.eq('date', selectedDate)\<close> added when a date is chosen. The order among rows of
  one date is the database's choice; the model takes the reversed stable sort.
\<close>

definition select_active :: "string \<Rightarrow> store \<Rightarrow> store_error + entry list" where
  "select_active selectedDate db =
     (if \<not> reachable db then Inl Unreachable
      else Inr (rev (sort_key date
             (filter (\<lambda>r. status r = ''active'' \<and> (selectedDate = [] \<or> date r = selectedDate))
                (rows db)))))"

section \<open>Active entries: settle and renew\<close>

record settlement_form =
  total_amount :: int
  s_date :: string
  s_notes :: string

record renewal_form =
  settlement_amount :: int
  r_renewal_date :: string
  new_loan_amount :: int

datatype toast = ToastSuccess string | ToastError string

text \<open>
  Every component raises notifications (\<^verbatim>\<open>toast.success\<close>, \<^verbatim>\<open>toast.error\<close>); the
  state keeps them, oldest first. A list view adds the rows shown and the filters.
  Messages written to the console are not modelled.
\<close>

record notifier =
  toasts :: "toast list"

record 'row list_view = notifier +
  entries :: "'row list"
  searchTerm :: string
  selectedDate :: string
  loading :: bool

record taken_state = "entry list_view" +
  selectedEntry :: "entry option"
  showSettlementModal :: bool
  showRenewalModal :: bool
  settlementData :: settlement_form
  renewalData :: renewal_form

definition fetchEntries :: "taken_state \<Rightarrow> store \<Rightarrow> taken_state" where
  "fetchEntries st db =
     (case select_active (selectedDate st) db of
        Inl err \<Rightarrow> st\<lparr>toasts := toasts st @ [ToastError ''Failed to fetch entries''],
                       loading := False\<rparr>
      | Inr data \<Rightarrow> st\<lparr>entries := data, loading := False\<rparr>)"

text \<open>\<^verbatim>\<open>s || null\<close> on a string: the empty string is falsy.\<close>

definition string_or_null :: "string \<Rightarrow> string option" where
  "string_or_null s = (if s = [] then None else Some s)"

text \<open>The fields written by the settle request, computed from the selected snapshot.\<close>

definition settle_fields :: "settlement_form \<Rightarrow> entry \<Rightarrow> entry \<Rightarrow> entry" where
  "settle_fields sd sel r =
     r\<lparr>status := ''settled'',
       settled_amount := Some (total_amount sd - given_amount sel),
       settled_date := Some (s_date sd),
       settlement_notes := string_or_null (s_notes sd)\<rparr>"

definition handleSettleSubmit :: "taken_state \<Rightarrow> store \<Rightarrow> taken_state \<times> store" where
  "handleSettleSubmit st db =
     (case selectedEntry st of
        None \<Rightarrow> (st, db)
      | Some sel \<Rightarrow>
          (case update_where (\<lambda>r. entry_id r = entry_id sel \<and> status r = ''active'')
                  (settle_fields (settlementData st) sel) db of
             Inl err \<Rightarrow> (st\<lparr>toasts := toasts st @ [ToastError ''Failed to settle loan'']\<rparr>, db)
           | Inr db' \<Rightarrow>
               (st\<lparr>toasts := toasts st @ [ToastSuccess ''Loan settled successfully''],
                   showSettlementModal := False,
                   entries := filter (\<lambda>entry. entry_id entry \<noteq> entry_id sel) (entries st)\<rparr>,
                db')))"

text \<open>\<^verbatim>\<open>selectedEntry.renewal_history || []\<close>: an array, even an empty one, is truthy.\<close>

definition existingHistory :: "entry \<Rightarrow> renewal_item list" where
  "existingHistory sel = (case renewal_history sel of None \<Rightarrow> [] | Some h \<Rightarrow> h)"

definition historyEntry :: "renewal_form \<Rightarrow> entry \<Rightarrow> renewal_item" where
  "historyEntry rd sel =
     \<lparr>h_date = date sel,
      h_amount = given_amount sel,
      h_settled_amount = settlement_amount rd,
      h_renewal_date = r_renewal_date rd,
      h_new_amount = new_loan_amount rd\<rparr>"

text \<open>
  The fields written by the renewal request. (The source also computes
  \<^verbatim>\<open>extraAmount\<close> and never uses it.)
\<close>

definition renewal_fields :: "renewal_form \<Rightarrow> entry \<Rightarrow> entry \<Rightarrow> entry" where
  "renewal_fields rd sel r =
     r\<lparr>renewal_history := Some (existingHistory sel @ [historyEntry rd sel]),
       date := r_renewal_date rd,
       renewal_date := Some (r_renewal_date rd),
       renewal_amount := Some (settlement_amount rd),
       given_amount := new_loan_amount rd\<rparr>"

text \<open>
  After a successful renewal the list is fetched again. The source starts the fetch without
  awaiting it; the model runs it to completion against the store the update left.
\<close>

definition handleRenewalSubmit :: "taken_state \<Rightarrow> store \<Rightarrow> taken_state \<times> store" where
  "handleRenewalSubmit st db =
     (case selectedEntry st of
        None \<Rightarrow> (st, db)
      | Some sel \<Rightarrow>
          (case update_where (\<lambda>r. entry_id r = entry_id sel \<and> status r = ''active'')
                  (renewal_fields (renewalData st) sel) db of
             Inl err \<Rightarrow> (st\<lparr>toasts := toasts st @ [ToastError ''Failed to renew loan'']\<rparr>, db)
           | Inr db' \<Rightarrow>
               (fetchEntries
                  (st\<lparr>toasts := toasts st @ [ToastSuccess ''Loan renewed successfully''],
                      showRenewalModal := False\<rparr>) db',
                db')))"

section \<open>Settled entries: revoke\<close>

text \<open>The ten columns the settled view selects (interface \<^verbatim>\<open>SettledEntry\<close>).\<close>

record settled_entry =
  se_id :: int
  se_type :: string
  se_date :: string
  se_customer_name :: string
  se_customer_mobile :: "string option"
  se_given_amount :: int
  se_settled_amount :: int
  se_settled_date :: string
  se_items :: string
  se_settlement_notes :: "string option"

type_synonym settled_state = "settled_entry list_view"

definition revoke_fields :: "entry \<Rightarrow> entry" where
  "revoke_fields r =
     r\<lparr>status := ''active'',
       settled_amount := None,
       settled_date := None,
       settlement_notes := None\<rparr>"

text \<open>\<open>confirmed\<close> is the user's answer to the \<^verbatim>\<open>confirm(...)\<close> dialog.\<close>

definition handleRevoke :: "bool \<Rightarrow> int \<Rightarrow> settled_state \<Rightarrow> store \<Rightarrow> settled_state \<times> store" where
  "handleRevoke confirmed rid st db =
     (if \<not> confirmed then (st, db)
      else
        (case update_where (\<lambda>r. entry_id r = rid \<and> status r = ''settled'') revoke_fields db of
           Inl err \<Rightarrow> (st\<lparr>toasts := toasts st @ [ToastError ''Failed to revoke settlement'']\<rparr>, db)
         | Inr db' \<Rightarrow>
             (st\<lparr>toasts := toasts st @ [ToastSuccess ''Settlement revoked successfully''],
                 entries := filter (\<lambda>entry. se_id entry \<noteq> rid) (entries st)\<rparr>,
              db')))"

section \<open>Report: aggregation\<close>

record type_stats =
  total :: int
  active :: int
  settled :: int
  invested :: int
  earned :: int








section \<open>JavaScript numbers\<close>

text \<open>
  The amounts are JavaScript numbers, IEEE 754 doubles, and the amount inputs take two
  decimals. Over whole amounts every sum below \<open>2^53\<close> is exact and the integers above are
  the code. Over fractional amounts the order of the additions matters, so the
  aggregation is given a second time with the additions rounded.

  A finite double is the rational it denotes. An operation gives the exact result rounded
  to the nearest double, ties to the even significand: 53 bits, 52 of them below the
  leading one, down to the exponent \<open>-1022\<close> of the subnormal numbers. Infinities, NaN and
  the negative zero are not modelled, and a result beyond the largest double is rounded as
  if the exponent had no upper limit.
\<close>

type_synonym number = rat

text \<open>
  \<open>2^k\<close> for an integer \<open>k\<close>, the exponent \<open>\<lfloor>log\<^sub>2 |x|\<rfloor>\<close> of a number that is not
  zero, and rounding to the nearest integer, a tie to the even one.
\<close>

definition pow2 :: "int \<Rightarrow> rat" where
  "pow2 k = (if 0 \<le> k then 2 ^ nat k else 1 / 2 ^ nat (- k))"

definition exponent :: "rat \<Rightarrow> int" where
  "exponent x =
     (if 1 \<le> \<bar>x\<bar> then bitlen \<lfloor>\<bar>x\<bar>\<rfloor> - 1 else - bitlen (\<lceil>1 / \<bar>x\<bar>\<rceil> - 1))"

definition round_half_even :: "rat \<Rightarrow> int" where
  "round_half_even y =
     (let f = \<lfloor>y\<rfloor>; r = y - of_int f
      in if r < 1 / 2 then f else if 1 / 2 < r then f + 1 else if even f then f else f + 1)"

definition round_double :: "rat \<Rightarrow> number" where
  "round_double x =
     (if x = 0 then 0
      else (let u = max (exponent x) (- 1022) - 52
            in of_int (round_half_even (x / pow2 u)) * pow2 u))"

text \<open>\<^verbatim>\<open>x + y\<close> and \<^verbatim>\<open>x - y\<close>.\<close>

definition js_add :: "number \<Rightarrow> number \<Rightarrow> number" where
  "js_add x y = round_double (x + y)"

definition js_sub :: "number \<Rightarrow> number \<Rightarrow> number" where
  "js_sub x y = round_double (x - y)"

text \<open>\<^verbatim>\<open>Number(e.target.value)\<close> on the decimal \<open>n / 10^k\<close> typed into an amount input.\<close>

definition decimal :: "int \<Rightarrow> nat \<Rightarrow> number" where
  "decimal n k = round_double (of_int n / 10 ^ k)"

section \<open>Report: aggregation over doubles\<close>

text \<open>
  The four columns the aggregation reads, the statistics and the reducer once more, line
  by line as above, with every addition of amounts rounded. The counters stay integers:
  they count entries.
\<close>

record entry_d =
  type_d :: string
  given_amount_d :: number
  status_d :: string
  settled_amount_d :: "number option"

record type_stats_d =
  total_d :: int
  active_d :: int
  settled_d :: int
  invested_d :: number
  earned_d :: number

record acc_stats_d =
  totalLoans_d :: int
  activeLoans_d :: int
  settledLoans_d :: int
  totalInvested_d :: number
  totalEarned_d :: number
  loanTypes_d :: "(string \<times> type_stats_d) list"

record report_stats_d = acc_stats_d +
  profit_d :: number

definition amount_or_0_d :: "number option \<Rightarrow> number" where
  "amount_or_0_d a = (case a of None \<Rightarrow> 0 | Some v \<Rightarrow> v)"

definition init_loanType_d ::
    "string \<Rightarrow> (string \<times> type_stats_d) list \<Rightarrow> (string \<times> type_stats_d) list" where
  "init_loanType_d k lt =
     (if map_of lt k = None
      then AList.update k
             \<lparr>total_d = 0, active_d = 0, settled_d = 0, invested_d = 0, earned_d = 0\<rparr> lt
      else lt)"

definition reducer_d :: "acc_stats_d \<Rightarrow> entry_d \<Rightarrow> acc_stats_d" where
  "reducer_d acc0 entry =
     (let k = type_d entry;
          acc1 = acc0\<lparr>loanTypes_d := init_loanType_d k (loanTypes_d acc0)\<rparr>;
          acc2 = acc1\<lparr>totalLoans_d := totalLoans_d acc1 + 1\<rparr>;
          acc3 = acc2\<lparr>totalInvested_d := js_add (totalInvested_d acc2) (given_amount_d entry)\<rparr>;
          acc4 = acc3\<lparr>loanTypes_d :=
                   AList.map_entry k (\<lambda>b. b\<lparr>total_d := total_d b + 1\<rparr>) (loanTypes_d acc3)\<rparr>;
          acc5 = acc4\<lparr>loanTypes_d :=
                   AList.map_entry k
                     (\<lambda>b. b\<lparr>invested_d := js_add (invested_d b) (given_amount_d entry)\<rparr>)
                     (loanTypes_d acc4)\<rparr>
      in if status_d entry = ''active'' then
           (let acc6 = acc5\<lparr>activeLoans_d := activeLoans_d acc5 + 1\<rparr>
            in acc6\<lparr>loanTypes_d :=
                    AList.map_entry k (\<lambda>b. b\<lparr>active_d := active_d b + 1\<rparr>) (loanTypes_d acc6)\<rparr>)
         else if status_d entry = ''settled'' then
           (let acc6 = acc5\<lparr>settledLoans_d := settledLoans_d acc5 + 1\<rparr>;
                acc7 = acc6\<lparr>loanTypes_d :=
                         AList.map_entry k (\<lambda>b. b\<lparr>settled_d := settled_d b + 1\<rparr>)
                           (loanTypes_d acc6)\<rparr>;
                acc8 = acc7\<lparr>totalEarned_d :=
                         js_add (totalEarned_d acc7) (amount_or_0_d (settled_amount_d entry))\<rparr>
            in acc8\<lparr>loanTypes_d :=
                    AList.map_entry k
                      (\<lambda>b. b\<lparr>earned_d :=
                              js_add (earned_d b) (amount_or_0_d (settled_amount_d entry))\<rparr>)
                      (loanTypes_d acc8)\<rparr>)
         else acc5)"

definition initial_stats_d :: acc_stats_d where
  "initial_stats_d =
     \<lparr>totalLoans_d = 0, activeLoans_d = 0, settledLoans_d = 0, totalInvested_d = 0,
      totalEarned_d = 0, loanTypes_d = []\<rparr>"

definition calculateStats_d :: "entry_d list \<Rightarrow> report_stats_d" where
  "calculateStats_d data =
     (let stats = foldl reducer_d initial_stats_d data
      in acc_stats_d.extend stats
           \<lparr>profit_d = js_sub (totalEarned_d stats) (totalInvested_d stats)\<rparr>)"

section \<open>Report: import\<close>

text \<open>
  The value \<^verbatim>\<open>JSON.parse\<close> returns. An object is the list of its own properties. Numbers
  are integers, as the amounts are; the validator only asks for their \<^verbatim>\<open>typeof\<close>.
\<close>

datatype json =
    JNull
  | JBool bool
  | JNum int
  | JStr string
  | JArr "json list"
  | JObj "(string \<times> json) list"

text \<open>
  \<^verbatim>\<open>item.k\<close>, with \<open>None\<close> for \<^verbatim>\<open>undefined\<close>. It is used only on values that passed
  \<^verbatim>\<open>typeof item === 'object' && item !== null\<close> and only with the eleven column names of
  the validator, none of which an object or an array inherits.
\<close>

fun field :: "json \<Rightarrow> string \<Rightarrow> json option" where
  "field (JObj kvs) k = map_of kvs k"
| "field _ k = None"

fun typeof :: "json option \<Rightarrow> string" where
  "typeof None = ''undefined''"
| "typeof (Some JNull) = ''object''"
| "typeof (Some (JBool b)) = ''boolean''"
| "typeof (Some (JNum n)) = ''number''"
| "typeof (Some (JStr s)) = ''string''"
| "typeof (Some (JArr xs)) = ''object''"
| "typeof (Some (JObj kvs)) = ''object''"

text \<open>\<^verbatim>\<open>[...].includes(v)\<close> on an array of strings.\<close>

definition array_includes :: "string list \<Rightarrow> json option \<Rightarrow> bool" where
  "array_includes ss v = (case v of Some (JStr s) \<Rightarrow> s \<in> set ss | _ \<Rightarrow> False)"

definition valid_item :: "json \<Rightarrow> bool" where
  "valid_item item =
     (typeof (Some item) = ''object'' \<and>
      item \<noteq> JNull \<and>
      typeof (field item ''type'') = ''string'' \<and>
      array_includes [''NR'', ''R'', ''Vyapari''] (field item ''type'') \<and>
      typeof (field item ''date'') = ''string'' \<and>
      typeof (field item ''customer_name'') = ''string'' \<and>
      typeof (field item ''customer_address'') = ''string'' \<and>
      (field item ''customer_mobile'' = Some JNull \<or>
         typeof (field item ''customer_mobile'') = ''string'') \<and>
      typeof (field item ''items'') = ''string'' \<and>
      typeof (field item ''given_amount'') = ''number'' \<and>
      array_includes [''active'', ''settled''] (field item ''status'') \<and>
      (field item ''settled_amount'' = None \<or>
         typeof (field item ''settled_amount'') = ''number'') \<and>
      (field item ''settled_date'' = None \<or>
         typeof (field item ''settled_date'') = ''string'') \<and>
      (field item ''settlement_notes'' = None \<or> field item ''settlement_notes'' = Some JNull \<or>
         typeof (field item ''settlement_notes'') = ''string''))"

definition validateImportData :: "json list \<Rightarrow> bool" where
  "validateImportData data = list_all valid_item data"

text \<open>
  What a \<^verbatim>\<open>catch\<close> can receive: an \<^verbatim>\<open>Error\<close> with its message, or some other value
  (the handler shows the message of the first and a fixed text for the second).
\<close>

datatype thrown = ErrorObject string | OtherValue

definition import_failed :: "thrown \<Rightarrow> toast" where
  "import_failed e =
     (case e of ErrorObject msg \<Rightarrow> ToastError msg | OtherValue \<Rightarrow> ToastError ''Failed to import data'')"

text \<open>
  The import sends the parsed array as it is in one \<^verbatim>\<open>insert\<close> request; how the
  service maps the keys of arbitrary objects to columns is not the repository's code, so
  its answer is an input: \<open>reply\<close> is the \<^verbatim>\<open>error\<close> of the response, \<open>None\<close> when the
  statement was executed. One request is one statement: it inserts every element or none.
  \<open>file\<close> is \<open>None\<close> when no file was chosen, and otherwise what reading and parsing it gave:
  the exception thrown or the value.

  The outcome records the notification, the elements inserted and whether the report is
  fetched again.
\<close>

record import_outcome =
  i_toast :: "toast option"
  inserted :: "json list"
  refetch :: bool

definition importData :: "(thrown + json) option \<Rightarrow> thrown option \<Rightarrow> import_outcome" where
  "importData file reply =
     (case file of
        None \<Rightarrow> \<lparr>i_toast = None, inserted = [], refetch = False\<rparr>
      | Some (Inl e) \<Rightarrow> \<lparr>i_toast = Some (import_failed e), inserted = [], refetch = False\<rparr>
      | Some (Inr (JArr data)) \<Rightarrow>
          (if \<not> validateImportData data then
             \<lparr>i_toast = Some (import_failed (ErrorObject
                 ''Invalid data format: Some entries are missing required fields or have invalid values'')),
              inserted = [], refetch = False\<rparr>
           else
             (case reply of
                Some err \<Rightarrow> \<lparr>i_toast = Some (import_failed err), inserted = [], refetch = False\<rparr>
              | None \<Rightarrow> \<lparr>i_toast = Some (ToastSuccess ''Data imported successfully''),
                         inserted = data, refetch = True\<rparr>))
      | Some (Inr _) \<Rightarrow>
          \<lparr>i_toast = Some (import_failed (ErrorObject ''Imported data must be an array'')),
           inserted = [], refetch = False\<rparr>)"

section \<open>Entry creation\<close>

record entry_form =
  f_type :: string
  f_date :: string
  customerName :: string
  customerAddress :: string
  customerMobile :: string
  f_items :: string
  givenAmount :: int

record form_state = notifier +
  formData :: entry_form

text \<open>\<^verbatim>\<open>s.split(c)\<close> for a one-character separator: every occurrence cuts, empty pieces stay.\<close>

fun split :: "char \<Rightarrow> string \<Rightarrow> string list" where
  "split c [] = [[]]"
| "split c (x # xs) =
     (if x = c then [] # split c xs
      else (case split c xs of [] \<Rightarrow> [[x]] | w # ws \<Rightarrow> (x # w) # ws))"

text \<open>
  An element of a destructured array as a template literal prints it: a missing one is
  \<^verbatim>\<open>undefined\<close>.
\<close>

definition piece :: "string list \<Rightarrow> nat \<Rightarrow> string" where
  "piece ps i = (if i < length ps then ps ! i else ''undefined'')"

text \<open>Convert dd-MM-yyyy to yyyy-MM-dd.\<close>

definition formattedDate :: "string \<Rightarrow> string" where
  "formattedDate d =
     (let ps = split CHR ''-'' d
      in piece ps 2 @ ''-'' @ piece ps 1 @ ''-'' @ piece ps 0)"

text \<open>The object the form inserts: seven columns, no others.\<close>

record new_entry =
  n_type :: string
  n_date :: string
  n_customer_name :: string
  n_customer_address :: string
  n_customer_mobile :: "string option"
  n_items :: string
  n_given_amount :: int

text \<open>
  The column \<^verbatim>\<open>date date NOT NULL\<close> takes a string only if the database can read it as
  a date; otherwise the statement fails (invalid datetime format) before any constraint is
  looked at. The model admits the ISO spelling \<^verbatim>\<open>yyyy-MM-dd\<close> of a day of the calendar,
  which the database reads under every setting and which the client is written to send.
\<close>

definition is_digit :: "char \<Rightarrow> bool" where
  "is_digit c = (c \<in> set ''0123456789'')"

definition number_of :: "string \<Rightarrow> nat" where
  "number_of s = foldl (\<lambda>n c. 10 * n + (of_char c - 48)) 0 s"

definition leap_year :: "nat \<Rightarrow> bool" where
  "leap_year y = (y mod 4 = 0 \<and> (y mod 100 \<noteq> 0 \<or> y mod 400 = 0))"

definition days_in_month :: "nat \<Rightarrow> nat \<Rightarrow> nat" where
  "days_in_month y m =
     (if m = 2 then (if leap_year y then 29 else 28)
      else if m \<in> set [4, 6, 9, 11] then 30
      else 31)"

definition calendar_date :: "string \<Rightarrow> string \<Rightarrow> string \<Rightarrow> bool" where
  "calendar_date y m d =
     (length y = 4 \<and> length m = 2 \<and> length d = 2 \<and>
      list_all is_digit y \<and> list_all is_digit m \<and> list_all is_digit d \<and>
      1 \<le> number_of y \<and>
      1 \<le> number_of m \<and> number_of m \<le> 12 \<and>
      1 \<le> number_of d \<and> number_of d \<le> days_in_month (number_of y) (number_of m))"

definition is_iso_date :: "string \<Rightarrow> bool" where
  "is_iso_date s =
     (case split CHR ''-'' s of [y, m, d] \<Rightarrow> calendar_date y m d | _ \<Rightarrow> False)"

text \<open>
  \<^verbatim>\<open>.insert([row])\<close>: the date is read, the identity column takes the next value of its
  sequence, a column the request does not name takes its default (\<^verbatim>\<open>'active'\<close> for
  \<^verbatim>\<open>status\<close>, \<^verbatim>\<open>NULL\<close> for the settlement and renewal columns, which declare none), and
  the row is checked.
\<close>

definition with_defaults :: "int \<Rightarrow> new_entry \<Rightarrow> entry" where
  "with_defaults i n =
     \<lparr>entry_id = i,
      type = n_type n,
      date = n_date n,
      customer_name = n_customer_name n,
      customer_address = n_customer_address n,
      customer_mobile = n_customer_mobile n,
      items = n_items n,
      given_amount = n_given_amount n,
      status = ''active'',
      settled_amount = None,
      settled_date = None,
      settlement_notes = None,
      renewal_history = None,
      renewal_date = None,
      renewal_amount = None\<rparr>"

definition insert_entry :: "new_entry \<Rightarrow> store \<Rightarrow> store_error + store" where
  "insert_entry n db =
     (if \<not> reachable db then Inl Unreachable
      else if \<not> is_iso_date (n_date n) then Inl InvalidDate
      else if \<not> row_ok (with_defaults (next_id db) n) then Inl CheckViolation
      else Inr (db\<lparr>rows := rows db @ [with_defaults (next_id db) n],
                   next_id := next_id db + 1\<rparr>))"

text \<open>\<open>today\<close> is \<^verbatim>\<open>format(new Date(), "dd-MM-yyyy")\<close>.\<close>

definition handleSubmit :: "string \<Rightarrow> form_state \<Rightarrow> store \<Rightarrow> form_state \<times> store" where
  "handleSubmit today st db =
     (let fd = formData st in
      case insert_entry
             \<lparr>n_type = f_type fd,
              n_date = formattedDate (f_date fd),
              n_customer_name = customerName fd,
              n_customer_address = customerAddress fd,
              n_customer_mobile = string_or_null (customerMobile fd),
              n_items = f_items fd,
              n_given_amount = givenAmount fd\<rparr> db of
        Inl err \<Rightarrow> (st\<lparr>toasts := toasts st @ [ToastError ''Failed to save entry'']\<rparr>, db)
      | Inr db' \<Rightarrow>
          (st\<lparr>toasts := toasts st @ [ToastSuccess ''Entry saved successfully!''],
              formData :=
                \<lparr>f_type = ''NR'', f_date = today, customerName = [], customerAddress = [],
                 customerMobile = [], f_items = [], givenAmount = 0\<rparr>\<rparr>,
           db'))"

text \<open>
  The date input gives \<^verbatim>\<open>yyyy-MM-dd\<close>, or the empty string when it is cleared (it is not
  \<^verbatim>\<open>required\<close>); the form keeps it as dd-MM-yyyy.
\<close>

definition handleDateChange :: "string \<Rightarrow> form_state \<Rightarrow> form_state" where
  "handleDateChange inputDate st =
     (let ps = split CHR ''-'' inputDate
      in st\<lparr>formData := (formData st)\<lparr>f_date := piece ps 2 @ ''-'' @ piece ps 1 @ ''-'' @ piece ps 0\<rparr>\<rparr>)"

text \<open>The form's spelling dd-MM-yyyy of a day of the calendar.\<close>

definition is_form_date :: "string \<Rightarrow> bool" where
  "is_form_date s =
     (case split CHR ''-'' s of [d, m, y] \<Rightarrow> calendar_date y m d | _ \<Rightarrow> False)"

text \<open>
  A well-formed draft: one of the three options of the type selector, the inputs marked
  \<^verbatim>\<open>required\<close> filled in, an amount that respects \<^verbatim>\<open>min="0"\<close>, and a date in the date
  field. The form itself does not ask for the date: a draft whose date was cleared is not
  well-formed, and it reaches \<^verbatim>\<open>handleSubmit\<close> all the same.
\<close>

definition valid_draft :: "entry_form \<Rightarrow> bool" where
  "valid_draft fd =
     (f_type fd \<in> set [''NR'', ''R'', ''Vyapari''] \<and>
      is_form_date (f_date fd) \<and>
      customerName fd \<noteq> [] \<and> customerAddress fd \<noteq> [] \<and> f_items fd \<noteq> [] \<and>
      0 \<le> givenAmount fd)"

section \<open>Definitions for the statements, and example data\<close>



text \<open>A whole number.\<close>

definition whole :: "number \<Rightarrow> bool" where
  "whole x = (of_int \<lfloor>x\<rfloor> = x)"

text \<open>
  For the aggregation over doubles: the fresh bucket, the effect of one entry on its
  bucket, the bucket an entry finds, and the invariants of the fold. A running total and
  its per-type sums agree as long as all of them are whole and their magnitudes stay
  within a bound \<open>B\<close>.
\<close>

abbreviation fresh_d :: type_stats_d where
  "fresh_d \<equiv> \<lparr>total_d = 0, active_d = 0, settled_d = 0, invested_d = 0, earned_d = 0\<rparr>"

definition bump_d :: "entry_d \<Rightarrow> type_stats_d \<Rightarrow> type_stats_d" where
  "bump_d e b =
     (let b1 = b\<lparr>total_d := total_d b + 1,
                 invested_d := js_add (invested_d b) (given_amount_d e)\<rparr>
      in if status_d e = ''active'' then b1\<lparr>active_d := active_d b1 + 1\<rparr>
         else if status_d e = ''settled'' then
           b1\<lparr>settled_d := settled_d b1 + 1,
              earned_d := js_add (earned_d b1) (amount_or_0_d (settled_amount_d e))\<rparr>
         else b1)"

definition bucket_before :: "string \<Rightarrow> (string \<times> type_stats_d) list \<Rightarrow> type_stats_d" where
  "bucket_before k lt = (case map_of lt k of None \<Rightarrow> fresh_d | Some b \<Rightarrow> b)"

definition channel_ok ::
    "(type_stats_d \<Rightarrow> number) \<Rightarrow> number \<Rightarrow> (string \<times> type_stats_d) list \<Rightarrow> number \<Rightarrow> bool" where
  "channel_ok g T lt B =
     (whole T \<and> list_all (\<lambda>p. whole (g (snd p))) lt \<and>
      T = (\<Sum>p\<leftarrow>lt. g (snd p)) \<and> \<bar>T\<bar> \<le> B \<and> (\<Sum>p\<leftarrow>lt. \<bar>g (snd p)\<bar>) \<le> B)"

definition exact_ok :: "acc_stats_d \<Rightarrow> number \<Rightarrow> number \<Rightarrow> bool" where
  "exact_ok acc B1 B2 =
     (channel_ok invested_d (totalInvested_d acc) (loanTypes_d acc) B1 \<and>
      channel_ok earned_d (totalEarned_d acc) (loanTypes_d acc) B2)"

definition counts_ok :: "acc_stats_d \<Rightarrow> bool" where
  "counts_ok acc =
     (distinct (map fst (loanTypes_d acc)) \<and>
      totalLoans_d acc = activeLoans_d acc + settledLoans_d acc \<and>
      totalLoans_d acc = (\<Sum>p\<leftarrow>loanTypes_d acc. total_d (snd p)))"

definition whole_amounts :: "entry_d \<Rightarrow> bool" where
  "whole_amounts e = (whole (given_amount_d e) \<and> whole (amount_or_0_d (settled_amount_d e)))"

text \<open>The eleven columns the revoke request does not name.\<close>

definition untouched_by_revoke ::
    "entry \<Rightarrow> (int \<times> string \<times> string \<times> string \<times> string \<times> string option \<times> string \<times> int) \<times>
       (renewal_item list option \<times> string option \<times> int option)" where
  "untouched_by_revoke r =
     ((entry_id r, type r, date r, customer_name r, customer_address r, customer_mobile r,
       items r, given_amount r),
      (renewal_history r, renewal_date r, renewal_amount r))"

text \<open>
  The scenario of the specification's examples: a loan of 1000 given on 2025-01-01, and a
  second loan already settled.
\<close>

definition example_entry :: entry where
  "example_entry =
     \<lparr>entry_id = 1, type = ''NR'', date = ''2025-01-01'', customer_name = ''Asha'',
      customer_address = ''Pune'', customer_mobile = None, items = ''gold ring'',
      given_amount = 1000, status = ''active'', settled_amount = None, settled_date = None,
      settlement_notes = None, renewal_history = None, renewal_date = None,
      renewal_amount = None\<rparr>"

definition example_settled :: entry where
  "example_settled =
     \<lparr>entry_id = 2, type = ''R'', date = ''2024-12-01'', customer_name = ''Ravi'',
      customer_address = ''Nashik'', customer_mobile = Some ''9800000000'', items = ''chain'',
      given_amount = 500, status = ''settled'', settled_amount = Some 200,
      settled_date = Some ''2025-01-10'', settlement_notes = Some ''paid in cash'',
      renewal_history = None, renewal_date = None, renewal_amount = None\<rparr>"

definition example_store :: store where
  "example_store = \<lparr>rows = [example_entry, example_settled], next_id = 3, reachable = True\<rparr>"

definition example_taken :: taken_state where
  "example_taken =
     \<lparr>toasts = [], entries = [example_entry], searchTerm = [], selectedDate = [],
      loading = False, selectedEntry = Some example_entry, showSettlementModal = True,
      showRenewalModal = False,
      settlementData = \<lparr>total_amount = 1200, s_date = ''2025-01-10'', s_notes = []\<rparr>,
      renewalData = \<lparr>settlement_amount = 1100, r_renewal_date = ''2025-02-01'',
                     new_loan_amount = 1500\<rparr>\<rparr>"

text \<open>The same row after another session has settled it; the view above still shows it.\<close>

definition stale_store :: store where
  "stale_store =
     \<lparr>rows = [example_entry\<lparr>status := ''settled'', settled_amount := Some 50,
                             settled_date := Some ''2025-01-05''\<rparr>],
      next_id = 2, reachable = True\<rparr>"

definition example_settled_view :: settled_state where
  "example_settled_view =
     \<lparr>toasts = [],
      entries = [\<lparr>se_id = 2, se_type = ''R'', se_date = ''2024-12-01'',
                  se_customer_name = ''Ravi'', se_customer_mobile = Some ''9800000000'',
                  se_given_amount = 500, se_settled_amount = 200,
                  se_settled_date = ''2025-01-10'', se_items = ''chain'',
                  se_settlement_notes = Some ''paid in cash''\<rparr>],
      searchTerm = [], selectedDate = [], loading = False\<rparr>"


text \<open>
  Three loans with amounts of one decimal, 1000.1 and 1200.4 of one type and 2000.2 of
  another; and three loans with whole amounts.
\<close>

definition fractional_report :: "entry_d list" where
  "fractional_report =
     [\<lparr>type_d = ''NR'', given_amount_d = decimal 10001 1, status_d = ''active'',
       settled_amount_d = None\<rparr>,
      \<lparr>type_d = ''R'', given_amount_d = decimal 20002 1, status_d = ''active'',
       settled_amount_d = None\<rparr>,
      \<lparr>type_d = ''NR'', given_amount_d = decimal 12004 1, status_d = ''active'',
       settled_amount_d = None\<rparr>]"

definition whole_report :: "entry_d list" where
  "whole_report =
     [\<lparr>type_d = ''NR'', given_amount_d = decimal 1000 0, status_d = ''active'',
       settled_amount_d = None\<rparr>,
      \<lparr>type_d = ''R'', given_amount_d = decimal 500 0, status_d = ''settled'',
       settled_amount_d = Some (decimal 200 0)\<rparr>,
      \<lparr>type_d = ''NR'', given_amount_d = decimal 3000 0, status_d = ''settled'',
       settled_amount_d = Some (decimal 450 0)\<rparr>]"

text \<open>
  Elements of an import file: one without the key \<^verbatim>\<open>customer_mobile\<close>, the same with
  \<^verbatim>\<open>"customer_mobile": null\<close>, and one of an unknown type.
\<close>

definition item_without_mobile :: json where
  "item_without_mobile =
     JObj [(''type'', JStr ''NR''), (''date'', JStr ''2025-01-01''),
           (''customer_name'', JStr ''Asha''), (''customer_address'', JStr ''Pune''),
           (''items'', JStr ''gold ring''), (''given_amount'', JNum 1000),
           (''status'', JStr ''active'')]"

definition item_null_mobile :: json where
  "item_null_mobile =
     JObj [(''type'', JStr ''NR''), (''date'', JStr ''2025-01-01''),
           (''customer_name'', JStr ''Asha''), (''customer_address'', JStr ''Pune''),
           (''customer_mobile'', JNull),
           (''items'', JStr ''gold ring''), (''given_amount'', JNum 1000),
           (''status'', JStr ''active'')]"

definition item_bad_type :: json where
  "item_bad_type =
     JObj [(''type'', JStr ''Gold''), (''date'', JStr ''2025-01-01''),
           (''customer_name'', JStr ''Asha''), (''customer_address'', JStr ''Pune''),
           (''customer_mobile'', JNull),
           (''items'', JStr ''gold ring''), (''given_amount'', JNum 1000),
           (''status'', JStr ''active'')]"

definition example_form :: form_state where
  "example_form =
     \<lparr>toasts = [],
      formData = \<lparr>f_type = ''NR'', f_date = ''01-01-2025'', customerName = ''Asha'',
                  customerAddress = ''Pune'', customerMobile = [], f_items = ''gold ring'',
                  givenAmount = 1000\<rparr>\<rparr>"

section \<open>The store's answers\<close>

lemma list_all_map_filter:
  assumes "list_all Q xs" and "\<And>x. Q x \<Longrightarrow> p x \<Longrightarrow> Q (f x)"
  shows "list_all Q (map f (filter p xs))"
  using assms by (induction xs) auto

lemmas check_defs = row_ok_def type_check_def given_amount_check_def status_check_def
  settlement_details_required_def renewal_details_check_def

lemma settle_fields_ok: "row_ok r \<Longrightarrow> row_ok (settle_fields sd sel r)"
  by (simp add: check_defs settle_fields_def)

lemma renewal_fields_ok:
  "row_ok r \<Longrightarrow> 0 \<le> new_loan_amount rd \<Longrightarrow> row_ok (renewal_fields rd sel r)"
  by (simp add: check_defs renewal_fields_def)

lemma revoke_fields_ok: "row_ok r \<Longrightarrow> row_ok (revoke_fields r)"
  by (simp add: check_defs revoke_fields_def)

lemma update_where_ok:
  assumes "reachable db" and "list_all row_ok (rows db)"
    and "\<And>r. row_ok r \<Longrightarrow> p r \<Longrightarrow> row_ok (f r)"
  shows "update_where p f db = Inr (db\<lparr>rows := map (\<lambda>r. if p r then f r else r) (rows db)\<rparr>)"
  using assms list_all_map_filter [of row_ok "rows db" p f]
  by (simp add: update_where_def)

text \<open>The CHECK constraints hold of every table that an accepted request leaves.\<close>

lemma update_where_keeps_checks:
  assumes "list_all row_ok (rows db)" and "update_where p f db = Inr db'"
  shows "list_all row_ok (rows db')"
proof -
  from assms(2) have ok: "list_all row_ok (map f (filter p (rows db)))"
    and eq: "rows db' = map (\<lambda>r. if p r then f r else r) (rows db)"
    by (auto simp: update_where_def split: if_splits)
  show ?thesis
    unfolding eq using assms(1) ok by (induction "rows db") (auto simp: list_all_iff)
qed

lemma insert_entry_keeps_checks:
  assumes "list_all row_ok (rows db)" and "insert_entry n db = Inr db'"
  shows "list_all row_ok (rows db')"
  using assms by (auto simp: insert_entry_def split: if_splits)

lemma update_where_none:
  assumes "reachable db" and "list_all (\<lambda>r. \<not> p r) (rows db)"
  shows "update_where p f db = Inr db"
proof -
  have "filter p (rows db) = []"
    using assms(2) by (induction "rows db") (auto simp: list_all_iff filter_empty_conv)
  moreover have "map (\<lambda>r. if p r then f r else r) (rows db) = rows db"
    using assms(2) by (simp add: list_all_iff map_idI)
  ultimately show ?thesis
    using assms(1) by (simp add: update_where_def)
qed

lemma handleSettleSubmit_ok:
  assumes "selectedEntry st = Some sel" and "reachable db" and "list_all row_ok (rows db)"
  shows "handleSettleSubmit st db =
     (st\<lparr>toasts := toasts st @ [ToastSuccess ''Loan settled successfully''],
         showSettlementModal := False,
         entries := filter (\<lambda>entry. entry_id entry \<noteq> entry_id sel) (entries st)\<rparr>,
      db\<lparr>rows := map (\<lambda>r. if entry_id r = entry_id sel \<and> status r = ''active''
                            then settle_fields (settlementData st) sel r else r) (rows db)\<rparr>)"
  using assms
  by (simp add: handleSettleSubmit_def update_where_ok settle_fields_ok)

lemma handleSettleSubmit_stale:
  assumes "selectedEntry st = Some sel" and "reachable db"
    and "list_all (\<lambda>r. \<not> (entry_id r = entry_id sel \<and> status r = ''active'')) (rows db)"
  shows "handleSettleSubmit st db =
     (st\<lparr>toasts := toasts st @ [ToastSuccess ''Loan settled successfully''],
         showSettlementModal := False,
         entries := filter (\<lambda>entry. entry_id entry \<noteq> entry_id sel) (entries st)\<rparr>, db)"
  using assms update_where_none [of db "\<lambda>r. entry_id r = entry_id sel \<and> status r = ''active''"]
  by (simp add: handleSettleSubmit_def)

lemma handleRenewalSubmit_rows:
  assumes "selectedEntry st = Some sel" and "reachable db" and "list_all row_ok (rows db)"
    and "0 \<le> new_loan_amount (renewalData st)"
  shows "rows (snd (handleRenewalSubmit st db)) =
     map (\<lambda>r. if entry_id r = entry_id sel \<and> status r = ''active''
               then renewal_fields (renewalData st) sel r else r) (rows db)"
  using assms
  by (simp add: handleRenewalSubmit_def update_where_ok renewal_fields_ok)

lemma handleRevoke_rows:
  assumes "confirmed" and "reachable db" and "list_all row_ok (rows db)"
  shows "rows (snd (handleRevoke confirmed rid st db)) =
     map (\<lambda>r. if entry_id r = rid \<and> status r = ''settled'' then revoke_fields r else r) (rows db)"
  using assms
  by (simp add: handleRevoke_def update_where_ok revoke_fields_ok)

lemma handleRevoke_cases:
  "rows (snd (handleRevoke confirmed rid st db)) = rows db \<or>
   rows (snd (handleRevoke confirmed rid st db)) =
     map (\<lambda>r. if entry_id r = rid \<and> status r = ''settled'' then revoke_fields r else r) (rows db)"
  by (auto simp: handleRevoke_def update_where_def split: sum.splits if_splits)

section \<open>Settle\<close>

text \<open>
  Claim C1. The selected entry is an active row of the table and the total entered is at
  least its given amount. When the request reaches the database, the settle handler
  rewrites that row to status \<^verbatim>\<open>settled\<close> with \<open>settled_amount = total_amount - given_amount\<close>
  (the extra amount, not the total), \<open>settled_date\<close> the chosen date and
  \<open>settlement_notes\<close> the notes, \<^verbatim>\<open>null\<close> when they are empty; every other column of the
  row keeps its value. The filter of the request asks for status \<^verbatim>\<open>active\<close> at write
  time: a row of another id, or one that is not active, is not rewritten.
\<close>

theorem settle_updates_record:
  assumes "selectedEntry st = Some sel"
    and "reachable db"
    and "list_all row_ok (rows db)"
    and "i < length (rows db)"
    and "rows db ! i = sel"
    and "status sel = ''active''"
    and "given_amount sel \<le> total_amount (settlementData st)"
  shows "length (rows (snd (handleSettleSubmit st db))) = length (rows db) \<and>
         rows (snd (handleSettleSubmit st db)) ! i =
           sel\<lparr>status := ''settled'',
               settled_amount := Some (total_amount (settlementData st) - given_amount sel),
               settled_date := Some (s_date (settlementData st)),
               settlement_notes :=
                 (if s_notes (settlementData st) = [] then None
                  else Some (s_notes (settlementData st)))\<rparr> \<and>
         (\<forall>j < length (rows db).
            entry_id (rows db ! j) \<noteq> entry_id sel \<or> status (rows db ! j) \<noteq> ''active'' \<longrightarrow>
              rows (snd (handleSettleSubmit st db)) ! j = rows db ! j)"
  using assms
  by (auto simp add: handleSettleSubmit_ok settle_fields_def string_or_null_def)

theorem settle_updates_record_witness:
  "given_amount example_entry \<le> total_amount (settlementData example_taken) \<and>
   rows example_store ! 0 = example_entry \<and>
   rows (snd (handleSettleSubmit example_taken example_store)) ! 0 =
     example_entry\<lparr>status := ''settled'', settled_amount := Some 200,
                    settled_date := Some ''2025-01-10'', settlement_notes := None\<rparr> \<and>
   rows (snd (handleSettleSubmit example_taken example_store)) ! 1 = example_settled"
  using settle_updates_record [of example_taken example_entry example_store 0]
  by (simp add: example_taken_def example_entry_def example_store_def example_settled_def
      check_defs)

text \<open>
  Claim C5, as amended. When no row of the selected id is active at write time, the
  request rewrites no row and is answered without an error: the table is as before, the
  handler announces success, and the entry is filtered out of the local list.
\<close>

theorem settle_stale_removed:
  assumes "selectedEntry st = Some sel"
    and "reachable db"
    and "list_all (\<lambda>r. entry_id r \<noteq> entry_id sel \<or> status r \<noteq> ''active'') (rows db)"
  shows "snd (handleSettleSubmit st db) = db \<and>
         toasts (fst (handleSettleSubmit st db)) =
           toasts st @ [ToastSuccess ''Loan settled successfully''] \<and>
         entries (fst (handleSettleSubmit st db)) =
           filter (\<lambda>entry. entry_id entry \<noteq> entry_id sel) (entries st) \<and>
         sel \<notin> set (entries (fst (handleSettleSubmit st db)))"
  using assms handleSettleSubmit_stale [of st sel db]
  by simp

theorem settle_stale_removed_witness:
  "list_all (\<lambda>r. entry_id r \<noteq> entry_id example_entry \<or> status r \<noteq> ''active'')
     (rows stale_store) \<and>
   snd (handleSettleSubmit example_taken stale_store) = stale_store \<and>
   entries (fst (handleSettleSubmit example_taken stale_store)) = []"
  using settle_stale_removed [of example_taken example_entry stale_store]
  by (simp add: example_taken_def example_entry_def stale_store_def)

text \<open>
  Claim C5 as stated says that the stale entry stays in the local list. It does not: the
  row was settled by another session, the view still shows it as active, and after the
  handler has run the table is unchanged and the entry is gone from the view.
\<close>

theorem settle_stale_counterexample:
  "example_entry \<in> set (entries example_taken) \<and>
   selectedEntry example_taken = Some example_entry \<and>
   status (rows stale_store ! 0) = ''settled'' \<and>
   entry_id (rows stale_store ! 0) = entry_id example_entry \<and>
   snd (handleSettleSubmit example_taken stale_store) = stale_store \<and>
   toasts (fst (handleSettleSubmit example_taken stale_store)) =
     [ToastSuccess ''Loan settled successfully''] \<and>
   example_entry \<notin> set (entries (fst (handleSettleSubmit example_taken stale_store)))"
  using handleSettleSubmit_stale [of example_taken example_entry stale_store]
  by (simp add: example_taken_def example_entry_def stale_store_def)

section \<open>Renew\<close>

text \<open>
  Claim C2. The selected entry is an active row of the table and the new loan amount is
  not negative (the form's minimum and the table's CHECK). When the request reaches the
  database, the renewal handler appends exactly one element to the row's history,
  \<open>{date, amount, settled_amount, renewal_date, new_amount}\<close> with the date and given amount
  from before the renewal and the three inputs, after the elements already stored; the row
  then has \<open>date = renewal_date\<close>, \<open>given_amount = new_loan_amount\<close>, \<open>renewal_date\<close> and
  \<open>renewal_amount\<close> present, and its status is still \<^verbatim>\<open>active\<close>.
\<close>

theorem renew_appends_history:
  assumes "selectedEntry st = Some sel"
    and "reachable db"
    and "list_all row_ok (rows db)"
    and "i < length (rows db)"
    and "rows db ! i = sel"
    and "status sel = ''active''"
    and "0 \<le> new_loan_amount (renewalData st)"
  shows "renewal_history (rows (snd (handleRenewalSubmit st db)) ! i) =
           Some ((case renewal_history sel of None \<Rightarrow> [] | Some h \<Rightarrow> h) @
                 [\<lparr>h_date = date sel,
                   h_amount = given_amount sel,
                   h_settled_amount = settlement_amount (renewalData st),
                   h_renewal_date = r_renewal_date (renewalData st),
                   h_new_amount = new_loan_amount (renewalData st)\<rparr>]) \<and>
         date (rows (snd (handleRenewalSubmit st db)) ! i) = r_renewal_date (renewalData st) \<and>
         given_amount (rows (snd (handleRenewalSubmit st db)) ! i) =
           new_loan_amount (renewalData st) \<and>
         renewal_date (rows (snd (handleRenewalSubmit st db)) ! i) =
           Some (r_renewal_date (renewalData st)) \<and>
         renewal_amount (rows (snd (handleRenewalSubmit st db)) ! i) =
           Some (settlement_amount (renewalData st)) \<and>
         status (rows (snd (handleRenewalSubmit st db)) ! i) = ''active''"
  using assms
  by (simp add: handleRenewalSubmit_rows renewal_fields_def existingHistory_def historyEntry_def)

theorem renew_appends_history_witness:
  "rows example_store ! 0 = example_entry \<and>
   status example_entry = ''active'' \<and>
   0 \<le> new_loan_amount (renewalData example_taken) \<and>
   renewal_history (rows (snd (handleRenewalSubmit example_taken example_store)) ! 0) =
     Some [\<lparr>h_date = ''2025-01-01'', h_amount = 1000, h_settled_amount = 1100,
            h_renewal_date = ''2025-02-01'', h_new_amount = 1500\<rparr>] \<and>
   date (rows (snd (handleRenewalSubmit example_taken example_store)) ! 0) = ''2025-02-01'' \<and>
   given_amount (rows (snd (handleRenewalSubmit example_taken example_store)) ! 0) = 1500 \<and>
   status (rows (snd (handleRenewalSubmit example_taken example_store)) ! 0) = ''active''"
  using renew_appends_history [of example_taken example_entry example_store 0]
  by (simp add: example_taken_def example_entry_def example_store_def example_settled_def
      check_defs)

section \<open>Revoke\<close>

text \<open>
  Claim C3. When the user confirms and the request reaches the database, the revoke
  handler turns the settled row of the given id to status \<^verbatim>\<open>active\<close> and sets
  \<open>settled_amount\<close>, \<open>settled_date\<close> and \<open>settlement_notes\<close> to \<^verbatim>\<open>null\<close>, all three; the
  filter of the request asks for status \<^verbatim>\<open>settled\<close> at write time, so a row that is not
  settled is left as it is.
\<close>

theorem revoke_clears_settlement:
  assumes "confirmed"
    and "reachable db"
    and "list_all row_ok (rows db)"
    and "i < length (rows db)"
  shows "(entry_id (rows db ! i) = rid \<and> status (rows db ! i) = ''settled'' \<longrightarrow>
            status (rows (snd (handleRevoke confirmed rid st db)) ! i) = ''active'' \<and>
            settled_amount (rows (snd (handleRevoke confirmed rid st db)) ! i) = None \<and>
            settled_date (rows (snd (handleRevoke confirmed rid st db)) ! i) = None \<and>
            settlement_notes (rows (snd (handleRevoke confirmed rid st db)) ! i) = None) \<and>
         (status (rows db ! i) \<noteq> ''settled'' \<longrightarrow>
            rows (snd (handleRevoke confirmed rid st db)) ! i = rows db ! i)"
  using assms
  by (simp add: handleRevoke_rows revoke_fields_def)

theorem revoke_clears_settlement_witness:
  "entry_id (rows example_store ! 1) = 2 \<and>
   status (rows example_store ! 1) = ''settled'' \<and>
   status (rows (snd (handleRevoke True 2 example_settled_view example_store)) ! 1) = ''active'' \<and>
   settled_amount (rows (snd (handleRevoke True 2 example_settled_view example_store)) ! 1) = None \<and>
   settled_date (rows (snd (handleRevoke True 2 example_settled_view example_store)) ! 1) = None \<and>
   settlement_notes (rows (snd (handleRevoke True 2 example_settled_view example_store)) ! 1) = None \<and>
   status (rows example_store ! 0) = ''active'' \<and>
   rows (snd (handleRevoke True 1 example_settled_view example_store)) ! 0 = rows example_store ! 0"
  using revoke_clears_settlement [of True example_store 1 2 example_settled_view]
    revoke_clears_settlement [of True example_store 0 1 example_settled_view]
  by (simp add: example_entry_def example_store_def example_settled_def check_defs)

text \<open>
  Claim C9. Whatever the revoke handler does, the columns \<open>id\<close>, \<open>type\<close>, \<open>date\<close>,
  \<open>customer_name\<close>, \<open>customer_address\<close>, \<open>customer_mobile\<close>, \<open>items\<close>, \<open>given_amount\<close>,
  \<open>renewal_history\<close>, \<open>renewal_date\<close> and \<open>renewal_amount\<close> of every row are as before: it
  writes the status and the three settlement columns only, and the renewal data survives.
\<close>

theorem revoke_frame:
  "map untouched_by_revoke (rows (snd (handleRevoke confirmed rid st db))) =
     map untouched_by_revoke (rows db) \<and>
   next_id (snd (handleRevoke confirmed rid st db)) = next_id db"
proof -
  have "untouched_by_revoke (revoke_fields r) = untouched_by_revoke r" for r
    by (simp add: untouched_by_revoke_def revoke_fields_def)
  then have "map untouched_by_revoke
      (map (\<lambda>r. if entry_id r = rid \<and> status r = ''settled'' then revoke_fields r else r) xs) =
      map untouched_by_revoke xs" for xs
    by (induction xs) simp_all
  moreover have "next_id (snd (handleRevoke confirmed rid st db)) = next_id db"
    by (auto simp: handleRevoke_def update_where_def split: sum.splits if_splits)
  ultimately show ?thesis
    using handleRevoke_cases [of confirmed rid st db] by auto
qed

section \<open>Report: aggregation\<close>

lemma map_entry_twice:
  "AList.map_entry k f (AList.map_entry k g al) = AList.map_entry k (\<lambda>b. f (g b)) al"
  by (induction al) auto













section \<open>Report: sums of doubles\<close>

lemma whole_of_int [simp]: "whole (of_int n)"
  by (simp add: whole_def)

lemma whole_0 [simp]: "whole 0"
  by (simp add: whole_def)

lemma wholeE: "whole x \<Longrightarrow> \<exists>n. x = of_int n"
  by (metis whole_def)

lemma bitlen_below: "0 < n \<Longrightarrow> n < 2 ^ 53 \<Longrightarrow> bitlen n \<le> 53"
proof -
  assume "0 < n" and "n < 2 ^ 53"
  with bitlen_bounds [of n] have "(2::int) ^ nat (bitlen n - 1) < 2 ^ 53"
    by linarith
  then have "nat (bitlen n - 1) < 53"
    by (rule power_less_imp_less_exp [rotated]) simp
  then show ?thesis by linarith
qed

lemma round_half_even_int [simp]: "round_half_even (of_int m) = m"
  by (simp add: round_half_even_def)

lemma round_double_int:
  assumes "\<bar>n\<bar> < 2 ^ 53"
  shows "round_double (of_int n) = of_int n"
proof (cases "n = 0")
  case True
  then show ?thesis by (simp add: round_double_def)
next
  case False
  then have pos: "0 < \<bar>n\<bar>" by simp
  define e where "e = bitlen \<bar>n\<bar> - 1"
  have e_le: "e \<le> 52" using bitlen_below [OF pos assms] by (simp add: e_def)
  have e_ge: "0 \<le> e"
    using pos bitlen_eq_zero_iff [of "\<bar>n\<bar>"] bitlen_nonneg [of "\<bar>n\<bar>"] by (simp add: e_def)
  have abs_n: "\<bar>(of_int n :: rat)\<bar> = of_int \<bar>n\<bar>" by simp
  have "1 \<le> \<bar>n\<bar>" using pos by linarith
  then have one: "(1::rat) \<le> of_int \<bar>n\<bar>" by (simp only: of_int_1_le_iff)
  have ex: "exponent (of_int n) = e"
    unfolding exponent_def abs_n using one by (simp only: if_True floor_of_int e_def)
  define k where "k = nat (52 - e)"
  have u: "max e (- 1022) - 52 = - int k" using e_le e_ge by (simp add: k_def)
  have p: "pow2 (- int k) = 1 / 2 ^ k" by (cases k) (simp_all add: pow2_def nat_add_distrib)
  have "of_int n / pow2 (- int k) = (of_int (n * 2 ^ k) :: rat)"
    by (simp add: p)
  then have "round_half_even (of_int n / pow2 (- int k)) = n * 2 ^ k"
    by (simp only: round_half_even_int)
  then show ?thesis
    using False by (simp add: round_double_def ex u p Let_def)
qed

lemma js_add_exact:
  assumes "whole x" and "whole y" and "\<bar>x + y\<bar> < 2 ^ 53"
  shows "js_add x y = x + y"
proof -
  from assms(1,2) obtain a b where x: "x = of_int a" and y: "y = of_int b"
    by (auto dest!: wholeE)
  have "(of_int \<bar>a + b\<bar> :: rat) < 2 ^ 53" using assms(3) by (simp add: x y)
  then have "\<bar>a + b\<bar> < 2 ^ 53"
    by (simp only: of_int_less_numeral_power_cancel_iff)
  from round_double_int [OF this] show ?thesis
    by (simp add: js_add_def x y)
qed

lemma reducer_d_loanTypes:
  "loanTypes_d (reducer_d acc e) =
     AList.map_entry (type_d e) (bump_d e) (init_loanType_d (type_d e) (loanTypes_d acc))"
  by (auto simp: reducer_d_def Let_def map_entry_twice bump_d_def [abs_def])

lemma reducer_d_totals:
  "totalLoans_d (reducer_d acc e) = totalLoans_d acc + 1"
  "totalInvested_d (reducer_d acc e) = js_add (totalInvested_d acc) (given_amount_d e)"
  "totalEarned_d (reducer_d acc e) =
     (if status_d e = ''settled''
      then js_add (totalEarned_d acc) (amount_or_0_d (settled_amount_d e))
      else totalEarned_d acc)"
  "activeLoans_d (reducer_d acc e) = activeLoans_d acc + (if status_d e = ''active'' then 1 else 0)"
  "settledLoans_d (reducer_d acc e) =
     settledLoans_d acc +
       (if status_d e = ''active'' then 0 else if status_d e = ''settled'' then 1 else 0)"
  by (simp_all add: reducer_d_def Let_def)

lemma sum_map_entry_g:
  fixes g :: "'v \<Rightarrow> 'a::ab_group_add"
  assumes "map_of al k = Some b"
  shows "(\<Sum>p\<leftarrow>AList.map_entry k f al. g (snd p)) = (\<Sum>p\<leftarrow>al. g (snd p)) - g b + g (f b)"
  using assms by (induction al) (auto split: if_splits simp: algebra_simps)

lemma sum_update_new_g:
  fixes g :: "'v \<Rightarrow> 'a::ab_group_add"
  assumes "map_of al k = None"
  shows "(\<Sum>p\<leftarrow>AList.update k v al. g (snd p)) = (\<Sum>p\<leftarrow>al. g (snd p)) + g v"
  using assms by (induction al) (auto split: if_splits simp: algebra_simps)

lemma init_d_lookup:
  "map_of (init_loanType_d k lt) k = Some (bucket_before k lt)"
  by (auto simp: init_loanType_d_def bucket_before_def update_conv')

lemma init_d_sum:
  fixes g :: "type_stats_d \<Rightarrow> 'a::ab_group_add"
  assumes "g fresh_d = 0"
  shows "(\<Sum>p\<leftarrow>init_loanType_d k lt. g (snd p)) = (\<Sum>p\<leftarrow>lt. g (snd p))"
  using assms by (simp add: init_loanType_d_def sum_update_new_g)

lemma init_d_distinct:
  "distinct (map fst lt) \<Longrightarrow> distinct (map fst (init_loanType_d k lt))"
  by (simp add: init_loanType_d_def distinct_update)

lemma bumped_sum:
  fixes g :: "type_stats_d \<Rightarrow> 'a::ab_group_add"
  assumes "g fresh_d = 0"
  shows "(\<Sum>p\<leftarrow>AList.map_entry k f (init_loanType_d k lt). g (snd p)) =
           (\<Sum>p\<leftarrow>lt. g (snd p)) - g (bucket_before k lt) + g (f (bucket_before k lt))"
  by (subst sum_map_entry_g [OF init_d_lookup]) (simp add: init_d_sum assms)

lemma list_all_update_new:
  "list_all Q al \<Longrightarrow> Q (k, v) \<Longrightarrow> map_of al k = None \<Longrightarrow> list_all Q (AList.update k v al)"
  by (induction al) (auto split: if_splits)

lemma list_all_map_entry:
  "list_all (\<lambda>p. P (snd p)) al \<Longrightarrow> map_of al k = Some b \<Longrightarrow> P (f b) \<Longrightarrow>
     list_all (\<lambda>p. P (snd p)) (AList.map_entry k f al)"
  by (induction al) (auto split: if_splits)

lemma list_all_lookup:
  "list_all (\<lambda>p. P (snd p)) al \<Longrightarrow> map_of al k = Some b \<Longrightarrow> P b"
  by (induction al) (auto split: if_splits)

lemma abs_sum_lookup:
  fixes g :: "'v \<Rightarrow> rat"
  shows "map_of al k = Some b \<Longrightarrow> \<bar>g b\<bar> \<le> (\<Sum>p\<leftarrow>al. \<bar>g (snd p)\<bar>)"
proof (induction al)
  case Nil
  then show ?case by simp
next
  case (Cons p al)
  have "0 \<le> (\<Sum>p\<leftarrow>al. \<bar>g (snd p)\<bar>)" by (rule sum_list_nonneg) auto
  with Cons show ?case by (auto split: if_splits)
qed

lemma bumped_all:
  assumes "list_all (\<lambda>p. P (snd p)) lt" and "P fresh_d" and "P (f (bucket_before k lt))"
  shows "list_all (\<lambda>p. P (snd p)) (AList.map_entry k f (init_loanType_d k lt))"
proof -
  have "list_all (\<lambda>p. P (snd p)) (init_loanType_d k lt)"
    using assms(1,2) by (simp add: init_loanType_d_def list_all_update_new)
  then show ?thesis
    using assms(3) by (rule list_all_map_entry [OF _ init_d_lookup])
qed

lemma whole_add: "whole x \<Longrightarrow> whole y \<Longrightarrow> whole (x + y)"
  by (metis of_int_add wholeE whole_of_int)

lemma bucket_before_facts:
  assumes "channel_ok g T lt B"
  shows "whole (g (bucket_before k lt)) \<or> map_of lt k = None"
    and "g fresh_d = 0 \<Longrightarrow> whole (g (bucket_before k lt))"
    and "g fresh_d = 0 \<Longrightarrow> \<bar>g (bucket_before k lt)\<bar> \<le> B"
proof -
  show w: "g fresh_d = 0 \<Longrightarrow> whole (g (bucket_before k lt))"
    using assms list_all_lookup [of "\<lambda>b. whole (g b)" lt k]
    by (auto simp: channel_ok_def bucket_before_def split: option.splits)
  show "whole (g (bucket_before k lt)) \<or> map_of lt k = None"
    using assms list_all_lookup [of "\<lambda>b. whole (g b)" lt k]
    by (auto simp: channel_ok_def bucket_before_def split: option.splits)
  have nn: "0 \<le> (\<Sum>p\<leftarrow>lt. \<bar>g (snd p)\<bar>)" by (rule sum_list_nonneg) auto
  show "g fresh_d = 0 \<Longrightarrow> \<bar>g (bucket_before k lt)\<bar> \<le> B"
    using assms nn abs_sum_lookup [of lt k _ g]
    by (auto simp: channel_ok_def bucket_before_def split: option.splits)
qed

lemma channel_step:
  assumes ok: "channel_ok g T lt B" and a: "whole a" and bound: "B + \<bar>a\<bar> < 2 ^ 53"
    and zero: "g fresh_d = 0"
    and f: "\<And>b. g (f b) = js_add (g b) a"
  shows "channel_ok g (js_add T a) (AList.map_entry k f (init_loanType_d k lt)) (B + \<bar>a\<bar>)"
proof -
  let ?b = "bucket_before k lt"
  have wb: "whole (g ?b)" and bb: "\<bar>g ?b\<bar> \<le> B"
    using bucket_before_facts(2,3) [OF ok zero] by auto
  from ok have wT: "whole T" and bT: "\<bar>T\<bar> \<le> B"
    and sT: "T = (\<Sum>p\<leftarrow>lt. g (snd p))" and sA: "(\<Sum>p\<leftarrow>lt. \<bar>g (snd p)\<bar>) \<le> B"
    and all: "list_all (\<lambda>p. whole (g (snd p))) lt"
    unfolding channel_ok_def by blast+
  have eT: "js_add T a = T + a"
    using wT a bT bound by (intro js_add_exact) auto
  have eb: "js_add (g ?b) a = g ?b + a"
    using wb a bb bound by (intro js_add_exact) auto
  have s1: "(\<Sum>p\<leftarrow>AList.map_entry k f (init_loanType_d k lt). g (snd p)) = T + a"
    by (simp add: bumped_sum zero f eb sT)
  have s2: "(\<Sum>p\<leftarrow>AList.map_entry k f (init_loanType_d k lt). \<bar>g (snd p)\<bar>) =
              (\<Sum>p\<leftarrow>lt. \<bar>g (snd p)\<bar>) - \<bar>g ?b\<bar> + \<bar>g ?b + a\<bar>"
    using bumped_sum [of "\<lambda>b. \<bar>g b\<bar>" k f lt] by (simp add: zero f eb)
  have w: "list_all (\<lambda>p. whole (g (snd p))) (AList.map_entry k f (init_loanType_d k lt))"
    using all wb a by (intro bumped_all) (simp_all add: zero f eb whole_add)
  show ?thesis
    unfolding channel_ok_def eT
    using wT a bT sA w s1 s2 by (auto simp: whole_add)
qed

lemma channel_same:
  assumes ok: "channel_ok g T lt B" and "B \<le> B'"
    and zero: "g fresh_d = 0"
    and f: "\<And>b. g (f b) = g b"
  shows "channel_ok g T (AList.map_entry k f (init_loanType_d k lt)) B'"
proof -
  let ?b = "bucket_before k lt"
  have wb: "whole (g ?b)" using bucket_before_facts(2) [OF ok zero] .
  from ok have all: "list_all (\<lambda>p. whole (g (snd p))) lt"
    unfolding channel_ok_def by blast
  have s1: "(\<Sum>p\<leftarrow>AList.map_entry k f (init_loanType_d k lt). g (snd p)) = (\<Sum>p\<leftarrow>lt. g (snd p))"
    by (simp add: bumped_sum zero f)
  have s2: "(\<Sum>p\<leftarrow>AList.map_entry k f (init_loanType_d k lt). \<bar>g (snd p)\<bar>) =
              (\<Sum>p\<leftarrow>lt. \<bar>g (snd p)\<bar>)"
    using bumped_sum [of "\<lambda>b. \<bar>g b\<bar>" k f lt] by (simp add: zero f)
  have w: "list_all (\<lambda>p. whole (g (snd p))) (AList.map_entry k f (init_loanType_d k lt))"
    using all wb by (intro bumped_all) (simp_all add: zero f)
  show ?thesis
    using ok assms(2) w by (auto simp: channel_ok_def s1 s2)
qed

lemma bump_d_fields:
  "invested_d (bump_d e b) = js_add (invested_d b) (given_amount_d e)"
  "total_d (bump_d e b) = total_d b + 1"
  "status_d e = ''settled'' \<Longrightarrow>
     earned_d (bump_d e b) = js_add (earned_d b) (amount_or_0_d (settled_amount_d e))"
  "status_d e \<noteq> ''settled'' \<Longrightarrow> earned_d (bump_d e b) = earned_d b"
  by (simp_all add: bump_d_def Let_def)

lemma reducer_d_exact:
  assumes "exact_ok acc B1 B2" and "whole_amounts e"
    and "B1 + \<bar>given_amount_d e\<bar> < 2 ^ 53"
    and "B2 + \<bar>amount_or_0_d (settled_amount_d e)\<bar> < 2 ^ 53"
  shows "exact_ok (reducer_d acc e) (B1 + \<bar>given_amount_d e\<bar>)
           (B2 + \<bar>amount_or_0_d (settled_amount_d e)\<bar>)"
proof -
  have inv: "channel_ok invested_d (totalInvested_d (reducer_d acc e))
               (loanTypes_d (reducer_d acc e)) (B1 + \<bar>given_amount_d e\<bar>)"
    unfolding reducer_d_loanTypes reducer_d_totals
    using assms by (intro channel_step) (simp_all add: exact_ok_def whole_amounts_def bump_d_fields)
  have ear: "channel_ok earned_d (totalEarned_d (reducer_d acc e))
               (loanTypes_d (reducer_d acc e)) (B2 + \<bar>amount_or_0_d (settled_amount_d e)\<bar>)"
  proof (cases "status_d e = ''settled''")
    case True
    then have te: "totalEarned_d (reducer_d acc e) =
        js_add (totalEarned_d acc) (amount_or_0_d (settled_amount_d e))"
      by (simp add: reducer_d_totals)
    show ?thesis
      unfolding reducer_d_loanTypes te using assms True
      by (intro channel_step) (simp_all add: exact_ok_def whole_amounts_def bump_d_fields)
  next
    case False
    then have te: "totalEarned_d (reducer_d acc e) = totalEarned_d acc"
      by (simp add: reducer_d_totals)
    show ?thesis
      unfolding reducer_d_loanTypes te using assms False
      by (intro channel_same [where B = B2]) (simp_all add: exact_ok_def bump_d_fields)
  qed
  from inv ear show ?thesis by (simp add: exact_ok_def)
qed

lemma foldl_d_exact:
  assumes "exact_ok acc B1 B2" and "list_all whole_amounts data"
    and "B1 + (\<Sum>e\<leftarrow>data. \<bar>given_amount_d e\<bar>) < 2 ^ 53"
    and "B2 + (\<Sum>e\<leftarrow>data. \<bar>amount_or_0_d (settled_amount_d e)\<bar>) < 2 ^ 53"
  shows "exact_ok (foldl reducer_d acc data)
           (B1 + (\<Sum>e\<leftarrow>data. \<bar>given_amount_d e\<bar>))
           (B2 + (\<Sum>e\<leftarrow>data. \<bar>amount_or_0_d (settled_amount_d e)\<bar>))"
  using assms
proof (induction data arbitrary: acc B1 B2)
  case Nil
  then show ?case by simp
next
  case (Cons e data)
  have n1: "0 \<le> (\<Sum>e\<leftarrow>data. \<bar>given_amount_d e\<bar>)" by (rule sum_list_nonneg) auto
  have n2: "0 \<le> (\<Sum>e\<leftarrow>data. \<bar>amount_or_0_d (settled_amount_d e)\<bar>)"
    by (rule sum_list_nonneg) auto
  have step: "exact_ok (reducer_d acc e) (B1 + \<bar>given_amount_d e\<bar>)
                (B2 + \<bar>amount_or_0_d (settled_amount_d e)\<bar>)"
    using Cons.prems n1 n2 by (intro reducer_d_exact) simp_all
  from Cons.IH [OF step] Cons.prems show ?case
    by (simp add: add.assoc)
qed

lemma initial_d_exact: "exact_ok initial_stats_d 0 0"
  by (simp add: exact_ok_def channel_ok_def initial_stats_d_def)

lemma reducer_d_counts:
  assumes "counts_ok acc" and "status_d e = ''active'' \<or> status_d e = ''settled''"
  shows "counts_ok (reducer_d acc e)"
proof -
  have "distinct (map fst (loanTypes_d (reducer_d acc e)))"
    using assms(1)
    by (simp add: counts_ok_def reducer_d_loanTypes distinct_map_entry init_d_distinct)
  moreover have "(\<Sum>p\<leftarrow>loanTypes_d (reducer_d acc e). total_d (snd p)) =
      (\<Sum>p\<leftarrow>loanTypes_d acc. total_d (snd p)) + 1"
    by (simp add: reducer_d_loanTypes bumped_sum bump_d_fields)
  ultimately show ?thesis
    using assms by (auto simp: counts_ok_def reducer_d_totals)
qed

lemma foldl_d_counts:
  "counts_ok acc \<Longrightarrow>
   list_all (\<lambda>e. status_d e = ''active'' \<or> status_d e = ''settled'') data \<Longrightarrow>
   counts_ok (foldl reducer_d acc data)"
  by (induction data arbitrary: acc) (simp_all add: reducer_d_counts)

lemma initial_d_counts: "counts_ok initial_stats_d"
  by (simp add: counts_ok_def initial_stats_d_def)

text \<open>
  Over doubles the two totals are the running sums, in the order of the list, of the
  amounts that the integer aggregation adds up exactly.
\<close>

lemma stats_d_running_sums:
  "totalInvested_d (calculateStats_d data) = foldl js_add 0 (map given_amount_d data) \<and>
   totalEarned_d (calculateStats_d data) =
     foldl js_add 0
       (map (\<lambda>e. amount_or_0_d (settled_amount_d e))
          (filter (\<lambda>e. status_d e = ''settled'') data))"
proof -
  have "totalInvested_d (foldl reducer_d acc data) =
          foldl js_add (totalInvested_d acc) (map given_amount_d data)" for acc
    by (induction data arbitrary: acc) (simp_all add: reducer_d_totals)
  moreover have "totalEarned_d (foldl reducer_d acc data) =
          foldl js_add (totalEarned_d acc)
            (map (\<lambda>e. amount_or_0_d (settled_amount_d e))
               (filter (\<lambda>e. status_d e = ''settled'') data))" for acc
    by (induction data arbitrary: acc) (simp_all add: reducer_d_totals)
  ultimately show ?thesis
    by (simp add: calculateStats_d_def Let_def acc_stats_d.defs initial_stats_d_def)
qed

text \<open>
  Claim C10, as amended. For entries whose status is \<^verbatim>\<open>active\<close> or \<^verbatim>\<open>settled\<close> (and
  whose types are the table's), \<open>totalLoans = activeLoans + settledLoans\<close> and \<open>totalLoans\<close>
  is the sum of \<open>total\<close> over the buckets, each type having one bucket. When every amount
  is a whole number and the magnitudes of the given amounts, and of the settled amounts,
  add up to less than \<open>2^53\<close>, \<open>totalInvested\<close> and \<open>totalEarned\<close> are the sums of
  \<open>invested\<close> and \<open>earned\<close> over the buckets.
\<close>

theorem stats_totals_rounding:
  assumes "list_all (\<lambda>e. status_d e = ''active'' \<or> status_d e = ''settled'') data"
    and "list_all (\<lambda>e. type_d e \<in> set [''NR'', ''R'', ''Vyapari'']) data"
  shows "totalLoans_d (calculateStats_d data) =
           activeLoans_d (calculateStats_d data) + settledLoans_d (calculateStats_d data) \<and>
         distinct (map fst (loanTypes_d (calculateStats_d data))) \<and>
         totalLoans_d (calculateStats_d data) =
           (\<Sum>(t, b)\<leftarrow>loanTypes_d (calculateStats_d data). total_d b) \<and>
         (list_all (\<lambda>e. whole (given_amount_d e) \<and> whole (amount_or_0_d (settled_amount_d e)))
            data \<and>
          (\<Sum>e\<leftarrow>data. \<bar>given_amount_d e\<bar>) < 2 ^ 53 \<and>
          (\<Sum>e\<leftarrow>data. \<bar>amount_or_0_d (settled_amount_d e)\<bar>) < 2 ^ 53 \<longrightarrow>
            totalInvested_d (calculateStats_d data) =
              (\<Sum>(t, b)\<leftarrow>loanTypes_d (calculateStats_d data). invested_d b) \<and>
            totalEarned_d (calculateStats_d data) =
              (\<Sum>(t, b)\<leftarrow>loanTypes_d (calculateStats_d data). earned_d b))"
proof -
  have c: "counts_ok (foldl reducer_d initial_stats_d data)"
    using assms(1) by (simp add: foldl_d_counts initial_d_counts)
  have e: "exact_ok (foldl reducer_d initial_stats_d data)
             (0 + (\<Sum>e\<leftarrow>data. \<bar>given_amount_d e\<bar>))
             (0 + (\<Sum>e\<leftarrow>data. \<bar>amount_or_0_d (settled_amount_d e)\<bar>))"
    if "list_all whole_amounts data"
      and "(\<Sum>e\<leftarrow>data. \<bar>given_amount_d e\<bar>) < 2 ^ 53"
      and "(\<Sum>e\<leftarrow>data. \<bar>amount_or_0_d (settled_amount_d e)\<bar>) < 2 ^ 53"
    using that by (intro foldl_d_exact initial_d_exact) simp_all
  have w: "list_all whole_amounts data =
      list_all (\<lambda>e. whole (given_amount_d e) \<and> whole (amount_or_0_d (settled_amount_d e))) data"
    by (simp add: whole_amounts_def [abs_def])
  show ?thesis
    using c e
    by (auto simp: calculateStats_d_def Let_def acc_stats_d.defs counts_ok_def exact_ok_def
        channel_ok_def case_prod_unfold w)
qed

lemma whole_report_facts:
  "list_all (\<lambda>e. status_d e = ''active'' \<or> status_d e = ''settled'') whole_report"
  "list_all (\<lambda>e. type_d e \<in> set [''NR'', ''R'', ''Vyapari'']) whole_report"
  "list_all (\<lambda>e. whole (given_amount_d e) \<and> whole (amount_or_0_d (settled_amount_d e)))
     whole_report"
  "(\<Sum>e\<leftarrow>whole_report. \<bar>given_amount_d e\<bar>) < 2 ^ 53"
  "(\<Sum>e\<leftarrow>whole_report. \<bar>amount_or_0_d (settled_amount_d e)\<bar>) < 2 ^ 53"
  by code_simp+

theorem stats_totals_rounding_witness:
  "list_all (\<lambda>e. whole (given_amount_d e) \<and> whole (amount_or_0_d (settled_amount_d e)))
     whole_report \<and>
   (\<Sum>e\<leftarrow>whole_report. \<bar>given_amount_d e\<bar>) < 2 ^ 53 \<and>
   totalLoans_d (calculateStats_d whole_report) =
     activeLoans_d (calculateStats_d whole_report) + settledLoans_d (calculateStats_d whole_report) \<and>
   totalInvested_d (calculateStats_d whole_report) =
     (\<Sum>(t, b)\<leftarrow>loanTypes_d (calculateStats_d whole_report). invested_d b) \<and>
   totalEarned_d (calculateStats_d whole_report) =
     (\<Sum>(t, b)\<leftarrow>loanTypes_d (calculateStats_d whole_report). earned_d b)"
  using stats_totals_rounding [of whole_report] whole_report_facts
  by simp

text \<open>
  Claim C10 as stated speaks of every list of entries, and fails on this one: with the
  given amounts 1000.1, 2000.2 and 1200.4, the second of another type than the other two,
  the total is the double \<open>1154679623699661 / 2^38\<close> (printed 4200.700000000001), and the
  two buckets hold 2200.5 and 2000.2, whose sum is another number.
\<close>

theorem stats_totals_counterexample:
  "map status_d fractional_report = [''active'', ''active'', ''active''] \<and>
   map type_d fractional_report = [''NR'', ''R'', ''NR''] \<and>
   map given_amount_d fractional_report = [decimal 10001 1, decimal 20002 1, decimal 12004 1] \<and>
   totalInvested_d (calculateStats_d fractional_report) = 1154679623699661 / 2 ^ 38 \<and>
   map (invested_d \<circ> snd) (loanTypes_d (calculateStats_d fractional_report)) =
     [4401 / 2, 8796972631510221 / 2 ^ 42] \<and>
   totalInvested_d (calculateStats_d fractional_report) \<noteq>
     sum_list (map (invested_d \<circ> snd) (loanTypes_d (calculateStats_d fractional_report)))"
  by code_simp

section \<open>Report: import\<close>

lemma typeof_string: "typeof v = ''string'' \<longleftrightarrow> (\<exists>s. v = Some (JStr s))"
  by (cases v rule: typeof.cases) simp_all

lemma typeof_number: "typeof v = ''number'' \<longleftrightarrow> (\<exists>n. v = Some (JNum n))"
  by (cases v rule: typeof.cases) simp_all

lemma array_includes_iff:
  "array_includes ss v \<longleftrightarrow> (\<exists>s. v = Some (JStr s) \<and> s \<in> set ss)"
  by (auto simp: array_includes_def split: option.splits json.splits)

lemma string_and_included:
  "(typeof v = ''string'' \<and> array_includes ss v \<and> R) \<longleftrightarrow>
     ((\<exists>s. v = Some (JStr s) \<and> s \<in> set ss) \<and> R)"
  by (auto simp: array_includes_iff)

lemma valid_item_type:
  "valid_item x \<Longrightarrow>
     field x ''type'' \<in> {Some (JStr ''NR''), Some (JStr ''R''), Some (JStr ''Vyapari'')}"
  by (auto simp: valid_item_def array_includes_iff)

lemma valid_item_status:
  "valid_item x \<Longrightarrow> field x ''status'' \<in> {Some (JStr ''active''), Some (JStr ''settled'')}"
  by (auto simp: valid_item_def array_includes_iff)

lemma importData_invalid:
  "\<not> validateImportData data \<Longrightarrow>
     importData (Some (Inr (JArr data))) reply =
       \<lparr>i_toast = Some (ToastError
          ''Invalid data format: Some entries are missing required fields or have invalid values''),
        inserted = [], refetch = False\<rparr>"
  by (simp add: importData_def import_failed_def)

lemma importData_inserted:
  "inserted (importData (Some (Inr (JArr data))) reply) =
     (if validateImportData data \<and> reply = None then data else [])"
  by (simp add: importData_def split: option.splits)

text \<open>
  Claim C7, as amended. The validator accepts exactly the objects in which \<open>type\<close> is one
  of the three type names, \<open>date\<close>, \<open>customer_name\<close>, \<open>customer_address\<close> and \<open>items\<close> are
  strings, \<open>given_amount\<close> is a number, \<open>status\<close> is \<^verbatim>\<open>active\<close> or \<^verbatim>\<open>settled\<close>,
  \<open>customer_mobile\<close> is present and is \<^verbatim>\<open>null\<close> or a string, \<open>settled_amount\<close> is absent
  or a number, \<open>settled_date\<close> is absent or a string, and \<open>settlement_notes\<close> is absent,
  \<^verbatim>\<open>null\<close> or a string. So an element without \<open>customer_mobile\<close> is rejected.
\<close>

theorem valid_item_iff:
  "valid_item item \<longleftrightarrow>
     (\<exists>kvs. item = JObj kvs \<and>
        (\<exists>t. map_of kvs ''type'' = Some (JStr t) \<and> (t = ''NR'' \<or> t = ''R'' \<or> t = ''Vyapari'')) \<and>
        (\<exists>d. map_of kvs ''date'' = Some (JStr d)) \<and>
        (\<exists>n. map_of kvs ''customer_name'' = Some (JStr n)) \<and>
        (\<exists>a. map_of kvs ''customer_address'' = Some (JStr a)) \<and>
        (map_of kvs ''customer_mobile'' = Some JNull \<or>
           (\<exists>m. map_of kvs ''customer_mobile'' = Some (JStr m))) \<and>
        (\<exists>i. map_of kvs ''items'' = Some (JStr i)) \<and>
        (\<exists>g. map_of kvs ''given_amount'' = Some (JNum g)) \<and>
        (\<exists>s. map_of kvs ''status'' = Some (JStr s) \<and> (s = ''active'' \<or> s = ''settled'')) \<and>
        (map_of kvs ''settled_amount'' = None \<or>
           (\<exists>a. map_of kvs ''settled_amount'' = Some (JNum a))) \<and>
        (map_of kvs ''settled_date'' = None \<or>
           (\<exists>d. map_of kvs ''settled_date'' = Some (JStr d))) \<and>
        (map_of kvs ''settlement_notes'' = None \<or>
           map_of kvs ''settlement_notes'' = Some JNull \<or>
           (\<exists>n. map_of kvs ''settlement_notes'' = Some (JStr n))))"
proof (cases item)
  case (JObj kvs)
  show ?thesis
    unfolding JObj valid_item_def string_and_included
    by (simp add: typeof_string typeof_number array_includes_iff)
qed (simp_all add: valid_item_def)

theorem valid_item_iff_witness:
  "valid_item item_null_mobile \<and> \<not> valid_item item_without_mobile"
  using valid_item_iff [of item_null_mobile] valid_item_iff [of item_without_mobile]
  by (simp add: item_null_mobile_def item_without_mobile_def)

text \<open>
  Claim C7 as stated lets an element without \<open>customer_mobile\<close> pass. The element below
  passes with \<^verbatim>\<open>"customer_mobile": null\<close> and fails without the key.
\<close>

theorem valid_item_mobile_counterexample:
  "valid_item item_null_mobile \<and>
   field item_without_mobile ''customer_mobile'' = None \<and>
   \<not> valid_item item_without_mobile"
  by (simp add: valid_item_def item_null_mobile_def item_without_mobile_def
      array_includes_def)

text \<open>
  Claim C6. If any element of the array has a \<open>type\<close> outside \<open>{NR, R, Vyapari}\<close> or a
  \<open>status\<close> outside \<open>{active, settled}\<close>, whatever the other elements are, the import
  inserts nothing and reports the invalid format. In every case either nothing is
  inserted, or the whole array is and then every element passed the validation; when every
  element passes and the store accepts the request, the whole array is inserted.
\<close>

theorem import_all_or_nothing:
  "((\<exists>x \<in> set data.
       field x ''type'' \<notin> {Some (JStr ''NR''), Some (JStr ''R''), Some (JStr ''Vyapari'')} \<or>
       field x ''status'' \<notin> {Some (JStr ''active''), Some (JStr ''settled'')}) \<longrightarrow>
     inserted (importData (Some (Inr (JArr data))) reply) = [] \<and>
     i_toast (importData (Some (Inr (JArr data))) reply) =
       Some (ToastError
         ''Invalid data format: Some entries are missing required fields or have invalid values'')) \<and>
   (inserted (importData (Some (Inr (JArr data))) reply) = [] \<or>
    inserted (importData (Some (Inr (JArr data))) reply) = data \<and> list_all valid_item data) \<and>
   (list_all valid_item data \<and> reply = None \<longrightarrow>
      inserted (importData (Some (Inr (JArr data))) reply) = data)"
proof -
  have "\<not> validateImportData data"
    if "x \<in> set data"
      and "field x ''type'' \<notin> {Some (JStr ''NR''), Some (JStr ''R''), Some (JStr ''Vyapari'')} \<or>
           field x ''status'' \<notin> {Some (JStr ''active''), Some (JStr ''settled'')}" for x
    using that valid_item_type [of x] valid_item_status [of x]
    by (auto simp: validateImportData_def list_all_iff)
  then have "(\<exists>x \<in> set data.
       field x ''type'' \<notin> {Some (JStr ''NR''), Some (JStr ''R''), Some (JStr ''Vyapari'')} \<or>
       field x ''status'' \<notin> {Some (JStr ''active''), Some (JStr ''settled'')}) \<longrightarrow>
     \<not> validateImportData data"
    by blast
  then show ?thesis
    by (auto simp: importData_invalid importData_inserted validateImportData_def)
qed

theorem import_all_or_nothing_witness:
  "item_bad_type \<in> set [item_null_mobile, item_bad_type] \<and>
   field item_bad_type ''type'' \<notin> {Some (JStr ''NR''), Some (JStr ''R''), Some (JStr ''Vyapari'')} \<and>
   valid_item item_null_mobile \<and>
   inserted (importData (Some (Inr (JArr [item_null_mobile, item_bad_type]))) None) = [] \<and>
   inserted (importData (Some (Inr (JArr [item_null_mobile, item_null_mobile]))) None) =
     [item_null_mobile, item_null_mobile]"
  using import_all_or_nothing [of "[item_null_mobile, item_bad_type]" None]
    import_all_or_nothing [of "[item_null_mobile, item_null_mobile]" None]
  by (simp add: item_bad_type_def item_null_mobile_def valid_item_def array_includes_def)

section \<open>Entry creation\<close>

text \<open>The conversion turns the form's date into the ISO spelling.\<close>

lemma split_no_sep: "c \<notin> set a \<Longrightarrow> split c a = [a]"
proof (induction a)
  case Nil
  show ?case by simp
next
  case (Cons x a)
  then have "x \<noteq> c" and "split c a = [a]" by auto
  then show ?case by simp
qed

lemma split_at_sep: "c \<notin> set a \<Longrightarrow> split c (a @ c # rest) = a # split c rest"
proof (induction a)
  case Nil
  show ?case by simp
next
  case (Cons x a)
  then have "x \<noteq> c" and "split c (a @ c # rest) = a # split c rest" by auto
  then show ?case by simp
qed

lemma dash_no_digit: "\<not> is_digit CHR ''-''"
  by (simp add: is_digit_def)

lemma digits_no_dash: "list_all is_digit a \<Longrightarrow> CHR ''-'' \<notin> set a"
  using dash_no_digit by (induction a) auto

lemma formattedDate_iso:
  assumes "is_form_date s"
  shows "is_iso_date (formattedDate s)"
proof -
  from assms obtain d m y where sp: "split CHR ''-'' s = [d, m, y]" and cal: "calendar_date y m d"
    by (auto simp: is_form_date_def split: list.splits)
  from cal have nd: "CHR ''-'' \<notin> set y" "CHR ''-'' \<notin> set m" "CHR ''-'' \<notin> set d"
    by (simp_all add: calendar_date_def digits_no_dash)
  have "formattedDate s = y @ CHR ''-'' # m @ CHR ''-'' # d"
    by (simp add: formattedDate_def sp piece_def)
  then have "split CHR ''-'' (formattedDate s) = [y, m, d]"
    using nd by (simp add: split_at_sep split_no_sep)
  then show ?thesis
    using cal by (simp add: is_iso_date_def)
qed

text \<open>
  A cleared date input leaves \<^verbatim>\<open>undefined-undefined-\<close> in the form; the conversion sends
  \<^verbatim>\<open>-undefined-undefined\<close>, the database refuses it and nothing is inserted.
\<close>

lemma cleared_date: "formattedDate ''undefined-undefined-'' = ''-undefined-undefined''"
  by code_simp

lemma cleared_date_no_date: "\<not> is_iso_date ''-undefined-undefined''"
  by code_simp

lemma handleDateChange_cleared:
  "f_date (formData (handleDateChange [] st)) = ''undefined-undefined-''"
  by (simp add: handleDateChange_def piece_def)

lemma handleSubmit_cleared_date:
  assumes "f_date (formData st) = ''undefined-undefined-''"
  shows "handleSubmit today st db =
           (st\<lparr>toasts := toasts st @ [ToastError ''Failed to save entry'']\<rparr>, db)"
  using assms cleared_date_no_date
  by (simp add: handleSubmit_def Let_def insert_entry_def cleared_date)

lemma valid_draft_row_ok:
  "valid_draft fd \<Longrightarrow>
     row_ok (with_defaults i
       \<lparr>n_type = f_type fd, n_date = d, n_customer_name = customerName fd,
        n_customer_address = customerAddress fd, n_customer_mobile = m,
        n_items = f_items fd, n_given_amount = givenAmount fd\<rparr>)"
  by (auto simp: valid_draft_def with_defaults_def row_ok_def type_check_def
      given_amount_check_def status_check_def settlement_details_required_def
      renewal_details_check_def)

lemma valid_draft_date: "valid_draft fd \<Longrightarrow> is_iso_date (formattedDate (f_date fd))"
  by (simp add: valid_draft_def formattedDate_iso)

lemma handleSubmit_rows:
  assumes "valid_draft (formData st)" and "reachable db"
  shows "rows (snd (handleSubmit today st db)) =
     rows db @
       [with_defaults (next_id db)
          \<lparr>n_type = f_type (formData st), n_date = formattedDate (f_date (formData st)),
           n_customer_name = customerName (formData st),
           n_customer_address = customerAddress (formData st),
           n_customer_mobile = string_or_null (customerMobile (formData st)),
           n_items = f_items (formData st), n_given_amount = givenAmount (formData st)\<rparr>]"
  using assms
  by (simp add: handleSubmit_def Let_def insert_entry_def valid_draft_row_ok valid_draft_date)

lemma example_form_date: "is_form_date ''01-01-2025''"
  by code_simp

text \<open>
  Claim C8. For a valid draft (a type of the selector, a date in the date field, the
  required inputs filled in, an amount that is not negative), when the request reaches the
  database, submitting the form adds one row to the table; its status is \<^verbatim>\<open>active\<close> and
  \<open>settled_amount\<close>, \<open>settled_date\<close>, \<open>settlement_notes\<close>, \<open>renewal_history\<close>,
  \<open>renewal_date\<close> and \<open>renewal_amount\<close> are all \<^verbatim>\<open>null\<close>.
\<close>

theorem submit_inserts_active:
  assumes "valid_draft (formData st)" and "reachable db"
  shows "\<exists>r. rows (snd (handleSubmit today st db)) = rows db @ [r] \<and>
             status r = ''active'' \<and>
             settled_amount r = None \<and> settled_date r = None \<and> settlement_notes r = None \<and>
             renewal_history r = None \<and> renewal_date r = None \<and> renewal_amount r = None"
  using assms
  by (simp add: handleSubmit_rows with_defaults_def)

theorem submit_inserts_active_witness:
  "valid_draft (formData example_form) \<and>
   rows (snd (handleSubmit ''02-11-2026'' example_form
     \<lparr>rows = [], next_id = 1, reachable = True\<rparr>)) \<noteq> [] \<and>
   (\<exists>r. rows (snd (handleSubmit ''02-11-2026'' example_form
            \<lparr>rows = [], next_id = 1, reachable = True\<rparr>)) = [r] \<and>
        status r = ''active'' \<and> settled_amount r = None \<and> renewal_history r = None)"
  using submit_inserts_active [of example_form "\<lparr>rows = [], next_id = 1, reachable = True\<rparr>"
      "''02-11-2026''"] example_form_date
  by (auto simp: example_form_def valid_draft_def)

end
